theory Spec2Isabelle
  imports Main
begin

section \<open>Data model of the chat server\<close>

text \<open>
  The server keeps two module-level JavaScript objects (\<open>activeSidsInRooms\<close>,
  \<open>userInfoBySid\<close>), two document collections (\<open>Conversation\<close>, \<open>User\<close>) and
  the room membership held by the socket layer (\<open>socket.join\<close>, \<open>socket.leave\<close>).
  A handler is modelled as a function on a record of these five parts that returns
  the new state and the events it emits, in order: the handler run to completion on
  the state it loads from. The changes a handler makes to the document it has loaded,
  before it saves it, are a function of that document alone (\<open>send_message_doc\<close>,
  \<open>update_status_doc\<close>, \<open>assign_doc\<close>, \<open>upload_doc\<close>). A \<open>Date\<close> is a number of
  milliseconds; each \<open>new Date()\<close> of a handler is a parameter of its model.
\<close>

type_synonym time = nat

datatype UserRole = customer | agent | admin

datatype ConversationStatus =
  "open" | assigned | in_progress | pending_customer | resolved | closed

fun role_str :: "UserRole \<Rightarrow> string" where
  "role_str customer = ''customer''"
| "role_str agent = ''agent''"
| "role_str admin = ''admin''"

fun status_str :: "ConversationStatus \<Rightarrow> string" where
  "status_str open = ''open''"
| "status_str assigned = ''assigned''"
| "status_str in_progress = ''in_progress''"
| "status_str pending_customer = ''pending_customer''"
| "status_str resolved = ''resolved''"
| "status_str closed = ''closed''"

text \<open>A document of the \<open>User\<close> collection (\<open>userSchema\<close>).\<close>

record user =
  u_id :: string
  u_google_id :: string
  email :: string
  full_name :: "string option"
  u_role :: UserRole
  is_active :: bool
  is_blocked :: bool

text \<open>The entry of \<open>userInfoBySid\<close> written when a socket connects.\<close>

record user_info =
  user_id :: string
  google_id :: string
  name :: string
  role :: UserRole
  sid :: string

record file_info =
  url :: string
  fi_name :: string
  mime_type :: string
  fi_size :: nat

text \<open>
  The payload of \<open>send_message\<close>. A field that may be absent is an option; an absent
  field and an empty string are both falsy in the handler's tests, an object never is.
\<close>

record content =
  c_text :: "string option"
  c_file_info :: "file_info option"

record send_message_data =
  d_conversation_id :: "string option"
  d_content :: "content option"

record message =
  sender_id :: string
  sender_name :: string
  sender_role :: UserRole
  m_content :: content
  m_conversation_id :: string
  timestamp :: time

text \<open>
  A document of the \<open>Conversation\<close> collection (\<open>conversationSchema\<close>). Its id is the
  key under which the collection holds it.
\<close>

record conversation =
  customer_id :: string
  agent_id :: "string option"
  status :: ConversationStatus
  subject :: "string option"
  chat_history :: "message list"
  summary :: "string option"
  assigned_at :: "time option"
  last_message_at :: time
  resolved_at :: "time option"
  closed_at :: "time option"

record assign_detail =
  ad_agent_id :: string
  ad_agent_name :: "string option"
  ad_new_status :: ConversationStatus

text \<open>
  Outbound events. \<open>socket.emit\<close> reaches the socket itself, \<open>io.to(room).emit\<close> every
  socket of the room, \<open>socket.to(room).emit\<close> every socket of the room but the sender.
\<close>

datatype audience =
  ToSocket string
| ToRoom string
| ToRoomExcept string string

datatype event =
  connection_ack string string
| error_message "string option" string
| conversation_joined string conversation
| participant_update string "user_info list"
| system_message string string "assign_detail option"
| new_message message
| conversation_status_update string string ConversationStatus "string option"
| conversation_assigned string string assign_detail
| typing_start_broadcast string string string
| typing_stop_broadcast string string string

type_synonym emit = "audience \<times> event"

record server_state =
  activeSidsInRooms :: "(string \<times> string list) list"
  userInfoBySid :: "string \<rightharpoonup> user_info"
  Conversation_docs :: "string \<rightharpoonup> conversation"
  User_docs :: "string \<rightharpoonup> user"
  rooms :: "string \<Rightarrow> string set"

subsection \<open>JavaScript values\<close>

text \<open>
  A string-keyed object keeps its keys in insertion order, and a \<open>Set\<close> its
  elements: both are lists here, an object a list of pairs with distinct keys.
\<close>

definition truthy_str :: "string option \<Rightarrow> bool" where
  "truthy_str v = (case v of None \<Rightarrow> False | Some s \<Rightarrow> s \<noteq> [])"

definition truthy_obj :: "'a option \<Rightarrow> bool" where
  "truthy_obj v = (case v of None \<Rightarrow> False | Some _ \<Rightarrow> True)"

definition str_or :: "string option \<Rightarrow> string \<Rightarrow> string" where
  "str_or v d = (case v of None \<Rightarrow> d | Some s \<Rightarrow> if s = [] then d else s)"

fun obj_set :: "('k \<times> 'v) list \<Rightarrow> 'k \<Rightarrow> 'v \<Rightarrow> ('k \<times> 'v) list" where
  "obj_set [] k v = [(k, v)]"
| "obj_set ((k', v') # kvs) k v =
     (if k' = k then (k, v) # kvs else (k', v') # obj_set kvs k v)"

definition obj_delete :: "('k \<times> 'v) list \<Rightarrow> 'k \<Rightarrow> ('k \<times> 'v) list" where
  "obj_delete kvs k = filter (\<lambda>kv. fst kv \<noteq> k) kvs"

definition set_add :: "'a list \<Rightarrow> 'a \<Rightarrow> 'a list" where
  "set_add xs x = (if x \<in> set xs then xs else xs @ [x])"

definition set_delete :: "'a list \<Rightarrow> 'a \<Rightarrow> 'a list" where
  "set_delete xs x = removeAll x xs"

definition roomName :: "string \<Rightarrow> string" where
  "roomName conversation_id = ''conversation_'' @ conversation_id"

subsection \<open>Document ids\<close>

text \<open>
  The id of a document is an \<open>ObjectId\<close>: twelve bytes, written as 24 hexadecimal
  digits of either case and printed in lower case. A collection is keyed by the
  printed form. \<open>isMongoId\<close> is the validator of the HTTP routes; \<open>findById\<close> casts
  the string it is given (\<open>castObjectId\<close>), throws \<open>CastError\<close> when that is no
  \<open>ObjectId\<close>, and looks the cast id up. No socket handler catches the exception.
  Forms that only some releases of the libraries take for an id beside these (a
  string of twelve characters in \<open>findById\<close>, digits after \<open>0x\<close> in \<open>isMongoId\<close>)
  are no ids here.
\<close>

datatype error = CastError

definition is_hex :: "char \<Rightarrow> bool" where
  "is_hex c = (c \<in> set ''0123456789abcdefABCDEF'')"

definition lower_hex :: "char \<Rightarrow> char" where
  "lower_hex c =
     (if c = CHR ''A'' then CHR ''a'' else if c = CHR ''B'' then CHR ''b''
      else if c = CHR ''C'' then CHR ''c'' else if c = CHR ''D'' then CHR ''d''
      else if c = CHR ''E'' then CHR ''e'' else if c = CHR ''F'' then CHR ''f''
      else c)"

definition isMongoId :: "string \<Rightarrow> bool" where
  "isMongoId s = (length s = 24 \<and> list_all is_hex s)"

definition objectId :: "string \<Rightarrow> string" where
  "objectId s = map lower_hex s"

definition castObjectId :: "string \<Rightarrow> string option" where
  "castObjectId s = (if isMongoId s then Some (objectId s) else None)"

text \<open>
  \<open>Array.from(activeSidsInRooms[id] || []).map((sid) => userInfoBySid[sid]).filter(Boolean)\<close>
\<close>

definition participants :: "server_state \<Rightarrow> string \<Rightarrow> user_info list" where
  "participants st conversation_id =
     List.map_filter (userInfoBySid st)
       (case map_of (activeSidsInRooms st) conversation_id of
          None \<Rightarrow> [] | Some sids \<Rightarrow> sids)"

text \<open>The sockets an emitted event is delivered to.\<close>

fun recipients :: "server_state \<Rightarrow> audience \<Rightarrow> string set" where
  "recipients st (ToSocket s) = {s}"
| "recipients st (ToRoom r) = rooms st r"
| "recipients st (ToRoomExcept r s) = rooms st r - {s}"

section \<open>Socket handlers\<close>

text \<open>\<open>io.on("connection", ...)\<close>: the socket has passed the authentication middleware.\<close>

definition connection :: "server_state \<Rightarrow> string \<Rightarrow> user \<Rightarrow> server_state \<times> emit list" where
  "connection st socket_id usr =
     (st\<lparr>userInfoBySid := (userInfoBySid st)(socket_id \<mapsto>
          \<lparr>user_id = u_id usr, google_id = u_google_id usr,
           name = str_or (full_name usr) (email usr), role = u_role usr,
           sid = socket_id\<rparr>)\<rparr>,
      [(ToSocket socket_id,
        connection_ack (u_id usr) ''Successfully connected to chat server.'')])"

text \<open>
  \<open>join_conversation\<close>. The room, the key of \<open>activeSidsInRooms\<close> and the id in the
  events are the string of the payload as it was sent.
\<close>

definition join_conversation ::
  "server_state \<Rightarrow> string \<Rightarrow> string option \<Rightarrow> error + server_state \<times> emit list" where
  "join_conversation st socket_id conversation_id =
     (case userInfoBySid st socket_id of
        None \<Rightarrow> Inr (st, [])
      | Some userInfo \<Rightarrow>
          if \<not> truthy_str conversation_id then Inr (st, [])
          else
            let cid = the conversation_id in
            (case castObjectId cid of
               None \<Rightarrow> Inl CastError
             | Some conv_id \<Rightarrow>
            (case Conversation_docs st conv_id of
               None \<Rightarrow>
                 Inr (st, [(ToSocket socket_id,
                            error_message (Some cid) ''Conversation not found.'')])
             | Some conv \<Rightarrow>
                 let isCustomer = (customer_id conv = user_id userInfo);
                     isAgentOrAdmin = (role userInfo \<in> {agent, admin})
                 in
                 if \<not> isCustomer \<and> \<not> isAgentOrAdmin then
                   Inr (st, [(ToSocket socket_id,
                              error_message (Some cid)
                                ''You are not authorized to join this conversation.'')])
                 else if status conv = closed then
                   Inr (st, [(ToSocket socket_id,
                              error_message (Some cid)
                                ''This conversation is closed and cannot be joined.'')])
                 else
                   let r = roomName cid;
                       members = (case map_of (activeSidsInRooms st) cid of
                                    None \<Rightarrow> [] | Some sids \<Rightarrow> sids);
                       st' = st\<lparr>rooms := (rooms st)(r := insert socket_id (rooms st r)),
                                activeSidsInRooms :=
                                  obj_set (activeSidsInRooms st) cid
                                    (set_add members socket_id)\<rparr>
                   in
                   Inr (st',
                    [(ToSocket socket_id, conversation_joined conv_id conv),
                     (ToRoom r, participant_update cid (participants st' cid)),
                     (ToRoomExcept r socket_id,
                      system_message cid (name userInfo @ '' has joined the chat.'') None)]))))"

text \<open>
  \<open>send_message\<close>. The three times are the handler's three \<open>new Date()\<close>: the
  message's timestamp, \<open>last_message_at\<close> and \<open>assigned_at\<close>. \<open>send_message_doc\<close> is
  what the handler does to the loaded document between \<open>findById\<close> and \<open>save\<close>.
\<close>

definition send_message_doc ::
  "conversation \<Rightarrow> UserRole \<Rightarrow> message \<Rightarrow> time \<Rightarrow> time \<Rightarrow> conversation" where
  "send_message_doc conv usr_role messagePayload t_last t_assigned =
     (let conv1 = conv\<lparr>chat_history := chat_history conv @ [messagePayload],
                      last_message_at := t_last\<rparr>
      in
      if usr_role \<in> {agent, admin} \<and> status conv1 \<in> {open, assigned}
      then
        let conv1' = conv1\<lparr>status := in_progress\<rparr> in
        if assigned_at conv1' = None \<and> agent_id conv1' \<noteq> None
        then conv1'\<lparr>assigned_at := Some t_assigned\<rparr>
        else conv1'
      else conv1)"

definition send_message ::
  "server_state \<Rightarrow> string \<Rightarrow> send_message_data \<Rightarrow> time \<Rightarrow> time \<Rightarrow> time
     \<Rightarrow> error + server_state \<times> emit list" where
  "send_message st socket_id data t_msg t_last t_assigned =
     (case userInfoBySid st socket_id of
        None \<Rightarrow> Inr (st, [])
      | Some userInfo \<Rightarrow>
          if \<not> truthy_str (d_conversation_id data) \<or> \<not> truthy_obj (d_content data)
             \<or> (\<not> truthy_str (c_text (the (d_content data)))
                  \<and> \<not> truthy_obj (c_file_info (the (d_content data))))
          then Inr (st, [(ToSocket socket_id, error_message None ''Invalid message data.'')])
          else
            let cid = the (d_conversation_id data);
                cont = the (d_content data)
            in
            (case castObjectId cid of
               None \<Rightarrow> Inl CastError
             | Some conv_id \<Rightarrow>
            (case Conversation_docs st conv_id of
               None \<Rightarrow>
                 Inr (st, [(ToSocket socket_id,
                            error_message None ''Conversation not found.'')])
             | Some conv \<Rightarrow>
                 let messagePayload =
                       \<lparr>sender_id = user_id userInfo, sender_name = name userInfo,
                        sender_role = role userInfo, m_content = cont,
                        m_conversation_id = cid, timestamp = t_msg\<rparr>;
                     oldStatus = status conv;
                     conv2 = send_message_doc conv (role userInfo) messagePayload
                               t_last t_assigned;
                     st' = st\<lparr>Conversation_docs :=
                                 (Conversation_docs st)(conv_id \<mapsto> conv2)\<rparr>;
                     r = roomName cid
                 in
                 Inr (st',
                  (ToRoom r, new_message messagePayload) #
                  (if status conv2 \<noteq> oldStatus
                   then [(ToRoom r,
                          conversation_status_update cid
                            (''Conversation status updated to '' @ status_str (status conv2) @ ''.'')
                            (status conv2) None)]
                   else [])))))"

text \<open>
  \<open>user_typing_start\<close> and \<open>user_typing_stop\<close>: the only test is that the socket
  has an entry in \<open>userInfoBySid\<close> and the payload names a conversation.
\<close>

definition user_typing_start ::
  "server_state \<Rightarrow> string \<Rightarrow> string option \<Rightarrow> server_state \<times> emit list" where
  "user_typing_start st socket_id conversation_id =
     (case userInfoBySid st socket_id of
        None \<Rightarrow> (st, [])
      | Some userInfo \<Rightarrow>
          if \<not> truthy_str conversation_id then (st, [])
          else
            (st, [(ToRoomExcept (roomName (the conversation_id)) socket_id,
                   typing_start_broadcast (user_id userInfo) (name userInfo)
                     (the conversation_id))]))"

definition user_typing_stop ::
  "server_state \<Rightarrow> string \<Rightarrow> string option \<Rightarrow> server_state \<times> emit list" where
  "user_typing_stop st socket_id conversation_id =
     (case userInfoBySid st socket_id of
        None \<Rightarrow> (st, [])
      | Some userInfo \<Rightarrow>
          if \<not> truthy_str conversation_id then (st, [])
          else
            (st, [(ToRoomExcept (roomName (the conversation_id)) socket_id,
                   typing_stop_broadcast (user_id userInfo) (name userInfo)
                     (the conversation_id))]))"

definition leave_conversation ::
  "server_state \<Rightarrow> string \<Rightarrow> string option \<Rightarrow> server_state \<times> emit list" where
  "leave_conversation st socket_id conversation_id =
     (case userInfoBySid st socket_id of
        None \<Rightarrow> (st, [])
      | Some userInfo \<Rightarrow>
          if \<not> truthy_str conversation_id then (st, [])
          else
            let cid = the conversation_id;
                r = roomName cid;
                st1 = st\<lparr>rooms := (rooms st)(r := rooms st r - {socket_id})\<rparr>;
                st2 =
                  (case map_of (activeSidsInRooms st1) cid of
                     None \<Rightarrow> st1
                   | Some sids \<Rightarrow>
                       let sids' = set_delete sids socket_id in
                       if length sids' = 0
                       then st1\<lparr>activeSidsInRooms := obj_delete (activeSidsInRooms st1) cid\<rparr>
                       else st1\<lparr>activeSidsInRooms :=
                                   obj_set (activeSidsInRooms st1) cid sids'\<rparr>)
            in
            (st2,
             [(ToRoom r, participant_update cid (participants st2 cid)),
              (ToRoom r, system_message cid (name userInfo @ '' has left the chat.'') None)]))"

text \<open>
  \<open>disconnect\<close>. The socket layer has already taken the socket out of every room
  when the handler runs. The \<open>for ... in\<close> loop visits the keys of
  \<open>activeSidsInRooms\<close> in order; its body changes the set stored under the key it is
  at, and no key.
\<close>

fun disconnect_loop ::
  "string \<Rightarrow> user_info \<Rightarrow> string list \<Rightarrow> server_state \<Rightarrow> server_state \<times> emit list" where
  "disconnect_loop socket_id userInfo [] st = (st, [])"
| "disconnect_loop socket_id userInfo (convId # convIds) st =
     (case map_of (activeSidsInRooms st) convId of
        None \<Rightarrow> disconnect_loop socket_id userInfo convIds st
      | Some sids \<Rightarrow>
          if socket_id \<in> set sids then
            let st' = st\<lparr>activeSidsInRooms :=
                           obj_set (activeSidsInRooms st) convId (set_delete sids socket_id)\<rparr>;
                evs = [(ToRoomExcept (roomName convId) socket_id,
                        system_message convId (name userInfo @ '' has left the chat.'') None),
                       (ToRoom (roomName convId),
                        participant_update convId (participants st' convId))];
                (st'', evs') = disconnect_loop socket_id userInfo convIds st'
            in (st'', evs @ evs')
          else disconnect_loop socket_id userInfo convIds st)"

definition disconnect :: "server_state \<Rightarrow> string \<Rightarrow> server_state \<times> emit list" where
  "disconnect st socket_id =
     (let st0 = st\<lparr>rooms := (\<lambda>r. rooms st r - {socket_id})\<rparr> in
      case userInfoBySid st0 socket_id of
        None \<Rightarrow> (st0, [])
      | Some userInfo \<Rightarrow>
          let (st1, evs) =
                disconnect_loop socket_id userInfo (map fst (activeSidsInRooms st0)) st0
          in (st1\<lparr>userInfoBySid := (userInfoBySid st1)(socket_id := None)\<rparr>, evs))"

section \<open>HTTP handlers\<close>

text \<open>
  A handler runs behind \<open>authenticateToken\<close>, which supplies the requesting user, and
  behind the validators of its route: \<open>validateRequest\<close> answers 422 when an id is
  not accepted by \<open>isMongoId\<close>; \<open>new_status\<close> is one of the six statuses. A handler
  answers with a status code and a body.
\<close>

datatype body = Detail string | ValidationErrors | Doc conversation | FileInfo file_info

type_synonym response = "nat \<times> body"

fun join_str :: "string \<Rightarrow> string list \<Rightarrow> string" where
  "join_str sep [] = []"
| "join_str sep [x] = x"
| "join_str sep (x # y # zs) = x @ sep @ join_str sep (y # zs)"

definition requireRole :: "UserRole list \<Rightarrow> user \<Rightarrow> response option" where
  "requireRole roles req_user =
     (if u_role req_user \<notin> set roles
      then Some (403, Detail (''Operation not permitted. Requires one of: ''
                                @ join_str '', '' (map role_str roles)))
      else None)"

text \<open>
  \<open>PATCH /conversations/:conversation_id/status\<close>. \<open>update_status_doc\<close> is what the
  handler does to the loaded document before it saves it.
\<close>

definition update_status_doc ::
  "conversation \<Rightarrow> ConversationStatus \<Rightarrow> time \<Rightarrow> conversation" where
  "update_status_doc conv new_status now =
     (let conv1 = conv\<lparr>status := new_status\<rparr> in
      if new_status = resolved then conv1\<lparr>resolved_at := Some now\<rparr>
      else if new_status = closed then
        let conv1' = conv1\<lparr>closed_at := Some now\<rparr> in
        if resolved_at conv1' = None then conv1'\<lparr>resolved_at := Some now\<rparr>
        else conv1'
      else conv1)"

definition update_status ::
  "server_state \<Rightarrow> user \<Rightarrow> string \<Rightarrow> ConversationStatus \<Rightarrow> time
     \<Rightarrow> server_state \<times> emit list \<times> response" where
  "update_status st req_user conversation_id new_status now =
     (if \<not> isMongoId conversation_id then (st, [], (422, ValidationErrors))
      else
        case Conversation_docs st (objectId conversation_id) of
          None \<Rightarrow> (st, [], (404, Detail ''Conversation not found''))
        | Some conv \<Rightarrow>
            let isAgentOrAdmin = (u_role req_user \<in> {agent, admin}) in
            if \<not> isAgentOrAdmin \<and> new_status \<notin> {open} then
              (st, [], (403, Detail (''User role '' @ role_str (u_role req_user)
                                       @ '' cannot set status to '' @ status_str new_status
                                       @ ''.'')))
            else
              let conv2 = update_status_doc conv new_status now;
                  conv_id = objectId conversation_id;
                  st' = st\<lparr>Conversation_docs := (Conversation_docs st)(conv_id \<mapsto> conv2)\<rparr>
              in
              (st',
               [(ToRoom (roomName conv_id),
                 conversation_status_update conv_id
                   (str_or (full_name req_user) (email req_user)
                      @ '' updated conversation status to: '' @ status_str new_status @ ''.'')
                   new_status (Some (u_id req_user)))],
               (200, Doc conv2)))"

text \<open>
  \<open>POST /admin/conversations/:conversation_id/assign\<close>, behind \<open>requireAdmin\<close>.
  \<open>assign_doc\<close> is what the handler does to the loaded document before it saves it.
\<close>

definition assign_doc :: "conversation \<Rightarrow> user \<Rightarrow> time \<Rightarrow> conversation" where
  "assign_doc conv agt now =
     (let conv1 = conv\<lparr>agent_id := Some (u_id agt), assigned_at := Some now\<rparr> in
      if status conv1 = open then conv1\<lparr>status := assigned\<rparr> else conv1)"

definition assign ::
  "server_state \<Rightarrow> user \<Rightarrow> string \<Rightarrow> string \<Rightarrow> time
     \<Rightarrow> server_state \<times> emit list \<times> response" where
  "assign st req_user conversation_id body_agent_id now =
     (case requireRole [admin] req_user of
        Some denied \<Rightarrow> (st, [], denied)
      | None \<Rightarrow>
          if \<not> isMongoId conversation_id \<or> \<not> isMongoId body_agent_id
          then (st, [], (422, ValidationErrors))
          else
          (case Conversation_docs st (objectId conversation_id) of
             None \<Rightarrow> (st, [], (404, Detail ''Conversation not found''))
           | Some conv \<Rightarrow>
               (case User_docs st (objectId body_agent_id) of
                  None \<Rightarrow>
                    (st, [], (400, Detail ''Invalid agent ID or user is not an agent/admin.''))
                | Some agt \<Rightarrow>
                    if u_role agt \<notin> {agent, admin} then
                      (st, [], (400, Detail ''Invalid agent ID or user is not an agent/admin.''))
                    else
                      let conv2 = assign_doc conv agt now;
                          conv_id = objectId conversation_id;
                          st' = st\<lparr>Conversation_docs :=
                                      (Conversation_docs st)(conv_id \<mapsto> conv2)\<rparr>;
                          r = roomName conv_id;
                          text_line = ''Conversation assigned to agent: ''
                                        @ str_or (full_name agt) (email agt) @ ''.'';
                          detail = \<lparr>ad_agent_id = u_id agt, ad_agent_name = full_name agt,
                                    ad_new_status = status conv2\<rparr>
                      in
                      (st',
                       [(ToRoom r, conversation_assigned conv_id text_line detail),
                        (ToRoom r, system_message conv_id text_line (Some detail))],
                       (200, Doc conv2)))))"

text \<open>
  \<open>POST /conversations/:conversation_id/attachments\<close>, once the upload middleware
  has stored the file and filled \<open>req.file\<close>. The url, the message and the room
  carry the id as the request spelt it.
\<close>

record req_file =
  filename :: string
  originalname :: string
  mimetype :: string
  rf_size :: nat

definition API_V1_STR :: string where
  "API_V1_STR = ''/api/v1''"

definition upload_doc :: "conversation \<Rightarrow> message \<Rightarrow> time \<Rightarrow> conversation" where
  "upload_doc conv messagePayload t_last =
     conv\<lparr>chat_history := chat_history conv @ [messagePayload], last_message_at := t_last\<rparr>"

definition upload_attachment ::
  "server_state \<Rightarrow> user \<Rightarrow> string \<Rightarrow> req_file \<Rightarrow> time \<Rightarrow> time
     \<Rightarrow> server_state \<times> emit list \<times> response" where
  "upload_attachment st req_user conversationId file t_msg t_last =
     (if \<not> isMongoId conversationId then (st, [], (422, ValidationErrors))
      else
        case Conversation_docs st (objectId conversationId) of
          None \<Rightarrow> (st, [], (404, Detail ''Conversation not found.''))
        | Some conv \<Rightarrow>
            let isAuthorized =
                  (customer_id conv = u_id req_user
                   \<or> (case agent_id conv of None \<Rightarrow> False | Some a \<Rightarrow> a = u_id req_user)
                   \<or> u_role req_user = admin)
            in
            if \<not> isAuthorized then
              (st, [], (403, Detail ''Not authorized to upload to this conversation.''))
            else
              let fileInfo =
                    \<lparr>url = API_V1_STR @ ''/files/attachments/'' @ conversationId @ ''/''
                             @ filename file,
                     fi_name = originalname file, mime_type = mimetype file,
                     fi_size = rf_size file\<rparr>;
                  messagePayload =
                    \<lparr>sender_id = u_id req_user,
                     sender_name = str_or (full_name req_user) (email req_user),
                     sender_role = u_role req_user,
                     m_content = \<lparr>c_text = Some [], c_file_info = Some fileInfo\<rparr>,
                     m_conversation_id = conversationId, timestamp = t_msg\<rparr>;
                  conv' = upload_doc conv messagePayload t_last;
                  st' = st\<lparr>Conversation_docs :=
                              (Conversation_docs st)(objectId conversationId \<mapsto> conv')\<rparr>
              in
              (st', [(ToRoom (roomName conversationId), new_message messagePayload)],
               (200, FileInfo fileInfo)))"

section \<open>Vocabulary of the properties\<close>

definition emits_error :: "emit list \<Rightarrow> bool" where
  "emits_error evs =
     list_ex (\<lambda>ae. case snd ae of error_message _ _ \<Rightarrow> True | _ \<Rightarrow> False) evs"

definition has_content :: "send_message_data \<Rightarrow> bool" where
  "has_content data =
     (case d_content data of
        None \<Rightarrow> False
      | Some c \<Rightarrow> truthy_str (c_text c) \<or> c_file_info c \<noteq> None)"

definition accepted_message :: "user_info \<Rightarrow> string \<Rightarrow> content \<Rightarrow> time \<Rightarrow> message" where
  "accepted_message userInfo cid c t =
     \<lparr>sender_id = user_id userInfo, sender_name = name userInfo, sender_role = role userInfo,
      m_content = c, m_conversation_id = cid, timestamp = t\<rparr>"

definition is_closed :: "server_state \<Rightarrow> string \<Rightarrow> bool" where
  "is_closed st cid =
     (case Conversation_docs st cid of None \<Rightarrow> False | Some conv \<Rightarrow> status conv = closed)"

text \<open>
  The payload's id names a conversation: \<open>findById\<close> returns a document. A
  \<open>send_message\<close> is rejected when the handler throws or emits an error.
\<close>

definition names_conversation :: "server_state \<Rightarrow> string option \<Rightarrow> bool" where
  "names_conversation st v =
     (case v of
        None \<Rightarrow> False
      | Some s \<Rightarrow>
          (case castObjectId s of
             None \<Rightarrow> False
           | Some k \<Rightarrow> (case Conversation_docs st k of None \<Rightarrow> False | Some _ \<Rightarrow> True)))"

definition rejected :: "error + server_state \<times> emit list \<Rightarrow> bool" where
  "rejected res = (case res of Inl _ \<Rightarrow> True | Inr r \<Rightarrow> emits_error (snd r))"

section \<open>A small deployment\<close>

text \<open>
  One conversation opened by the customer Ann, who is connected on socket \<open>sidA\<close> and
  has joined it; the agent Bob is connected on socket \<open>sidB\<close> and has joined nothing;
  Eve is an admin.
\<close>

definition ex_cid :: string where
  "ex_cid = ''64b7f0c2a1d3e4f5a6b7c8d9''"

definition ann :: user where
  "ann = \<lparr>u_id = ''64b7f0c2a1d3e4f5a6b7c8a1'', u_google_id = ''g-ann'',
          email = ''ann@example.org'', full_name = Some ''Ann'', u_role = customer,
          is_active = True, is_blocked = False\<rparr>"

definition bob :: user where
  "bob = \<lparr>u_id = ''64b7f0c2a1d3e4f5a6b7c8a2'', u_google_id = ''g-bob'',
          email = ''bob@example.org'', full_name = Some ''Bob'', u_role = agent,
          is_active = True, is_blocked = False\<rparr>"

definition eve :: user where
  "eve = \<lparr>u_id = ''64b7f0c2a1d3e4f5a6b7c8a3'', u_google_id = ''g-eve'',
          email = ''eve@example.org'', full_name = Some ''Eve'', u_role = admin,
          is_active = True, is_blocked = False\<rparr>"

definition ann_info :: user_info where
  "ann_info = \<lparr>user_id = u_id ann, google_id = u_google_id ann, name = ''Ann'',
               role = customer, sid = ''sidA''\<rparr>"

definition bob_info :: user_info where
  "bob_info = \<lparr>user_id = u_id bob, google_id = u_google_id bob, name = ''Bob'',
               role = agent, sid = ''sidB''\<rparr>"

definition ex_conv :: conversation where
  "ex_conv = \<lparr>customer_id = u_id ann, agent_id = None, status = open,
              subject = Some ''Need help'', chat_history = [], summary = None,
              assigned_at = None, last_message_at = 10, resolved_at = None,
              closed_at = None\<rparr>"

definition ex_closed_conv :: conversation where
  "ex_closed_conv = ex_conv\<lparr>status := closed, resolved_at := Some 40, closed_at := Some 50\<rparr>"

definition ex_state :: server_state where
  "ex_state =
     \<lparr>activeSidsInRooms = [(ex_cid, [''sidA''])],
      userInfoBySid = [''sidA'' \<mapsto> ann_info, ''sidB'' \<mapsto> bob_info],
      Conversation_docs = [ex_cid \<mapsto> ex_conv],
      User_docs = [u_id ann \<mapsto> ann, u_id bob \<mapsto> bob, u_id eve \<mapsto> eve],
      rooms = (\<lambda>r. {})(roomName ex_cid := {''sidA''})\<rparr>"

definition ex_closed_state :: server_state where
  "ex_closed_state = ex_state\<lparr>Conversation_docs := [ex_cid \<mapsto> ex_closed_conv]\<rparr>"

definition hello :: send_message_data where
  "hello = \<lparr>d_conversation_id = Some ex_cid,
            d_content = Some \<lparr>c_text = Some ''On it'', c_file_info = None\<rparr>\<rparr>"

definition blank :: send_message_data where
  "blank = \<lparr>d_conversation_id = Some ex_cid,
            d_content = Some \<lparr>c_text = Some [], c_file_info = None\<rparr>\<rparr>"

definition stray :: send_message_data where
  "stray = \<lparr>d_conversation_id = Some ''64b7f0c2a1d3e4f5a6b7c8ff'',
            d_content = Some \<lparr>c_text = Some ''Anyone there?'', c_file_info = None\<rparr>\<rparr>"

definition ex_cid_upper :: string where
  "ex_cid_upper = ''64B7F0C2A1D3E4F5A6B7C8D9''"

definition shouted :: send_message_data where
  "shouted = \<lparr>d_conversation_id = Some ex_cid_upper,
              d_content = Some \<lparr>c_text = Some ''On it'', c_file_info = None\<rparr>\<rparr>"

definition ex_resolved_conv :: conversation where
  "ex_resolved_conv = ex_conv\<lparr>status := resolved, resolved_at := Some 40\<rparr>"

definition ex_resolved_state :: server_state where
  "ex_resolved_state = ex_state\<lparr>Conversation_docs := [ex_cid \<mapsto> ex_resolved_conv]\<rparr>"

section \<open>Auxiliary facts\<close>

lemma truthy_obj_iff: "truthy_obj v \<longleftrightarrow> v \<noteq> None"
  by (cases v) (simp_all add: truthy_obj_def)

lemma castObjectId_Some: "castObjectId s = Some k \<longleftrightarrow> isMongoId s \<and> objectId s = k"
  by (simp add: castObjectId_def)

lemma castObjectId_nonempty: "castObjectId s = Some k \<Longrightarrow> s \<noteq> []"
  by (auto simp: castObjectId_def isMongoId_def)

lemma cast_ex_cid: "castObjectId ex_cid = Some ex_cid"
  by (simp add: castObjectId_def isMongoId_def objectId_def is_hex_def lower_hex_def ex_cid_def)

lemma cast_ex_cid_upper: "castObjectId ex_cid_upper = Some ex_cid"
  by (simp add: castObjectId_def isMongoId_def objectId_def is_hex_def lower_hex_def
        ex_cid_def ex_cid_upper_def)

lemma cast_bob: "castObjectId (u_id bob) = Some (u_id bob)"
  by (simp add: castObjectId_def isMongoId_def objectId_def is_hex_def lower_hex_def bob_def)

lemma cast_stray:
  "castObjectId ''64b7f0c2a1d3e4f5a6b7c8ff'' = Some ''64b7f0c2a1d3e4f5a6b7c8ff''"
  by (simp add: castObjectId_def isMongoId_def objectId_def is_hex_def lower_hex_def)

lemmas ex_defs = ex_state_def ex_closed_state_def ex_conv_def ex_closed_conv_def ex_cid_def
  ann_def bob_def eve_def ann_info_def bob_info_def hello_def blank_def roomName_def

text \<open>Reading a key of the room object after it was written or deleted.\<close>

lemma map_of_obj_delete: "map_of (obj_delete kvs k) k = None"
  by (induction kvs) (auto simp: obj_delete_def)

lemma map_of_obj_set: "map_of (obj_set kvs k v) k = Some v"
  by (induction kvs) auto

text \<open>
  What each writer of the conversation collection saves, when it saves: the
  document it loaded, changed by its \<open>_doc\<close> function.
\<close>

lemma send_message_saves:
  assumes "userInfoBySid st socket_id = Some userInfo"
      and "d_conversation_id data = Some raw" and "castObjectId raw = Some cid"
      and "d_content data = Some c" and "has_content data"
      and "Conversation_docs st cid = Some conv"
  shows "\<exists>st' evs. send_message st socket_id data t_msg t_last t_assigned = Inr (st', evs)
           \<and> Conversation_docs st' =
               (Conversation_docs st)(cid \<mapsto>
                  send_message_doc conv (role userInfo)
                    (accepted_message userInfo raw c t_msg) t_last t_assigned)"
  using assms castObjectId_nonempty [of raw cid]
  by (auto simp: send_message_def has_content_def truthy_obj_iff truthy_str_def Let_def
        accepted_message_def)

lemma assign_saves:
  assumes "assign st req_user conversation_id body_agent_id now = (st', evs, (200, b))"
  shows "\<exists>conv agt. Conversation_docs st (objectId conversation_id) = Some conv
           \<and> Conversation_docs st' =
               (Conversation_docs st)(objectId conversation_id \<mapsto> assign_doc conv agt now)"
  using assms
  by (auto simp: assign_def requireRole_def Let_def split: option.splits if_splits)

lemma upload_saves:
  assumes "upload_attachment st req_user conversationId file t_msg t_last = (st', evs, (200, b))"
  shows "\<exists>conv m. Conversation_docs st (objectId conversationId) = Some conv
           \<and> Conversation_docs st' =
               (Conversation_docs st)(objectId conversationId \<mapsto> upload_doc conv m t_last)"
  using assms
  by (auto simp: upload_attachment_def Let_def split: option.splits if_splits)

text \<open>
  The exception of \<open>send_message\<close>: the payload passes the tests of the handler and
  its id is no \<open>ObjectId\<close>. An error event of \<open>send_message\<close> never carries an id.
\<close>

lemma send_message_throws:
  assumes "userInfoBySid st socket_id = Some userInfo"
  shows "send_message st socket_id data t_msg t_last t_assigned = Inl CastError \<longleftrightarrow>
           (truthy_str (d_conversation_id data) \<and> has_content data
             \<and> castObjectId (the (d_conversation_id data)) = None)"
  using assms
  by (auto simp: send_message_def has_content_def truthy_obj_iff truthy_str_def Let_def
        split: option.splits)

lemma send_message_error_tag:
  assumes "send_message st socket_id data t_msg t_last t_assigned = Inr (st', evs)"
      and "(a, error_message tag msg) \<in> set evs"
  shows "tag = None \<and> a = ToSocket socket_id \<and> st' = st"
  using assms
  by (auto simp: send_message_def Let_def split: option.splits if_splits)

section \<open>Sending a message\<close>

text \<open>
  Claim C2. A socket that is registered in \<open>userInfoBySid\<close> sends \<open>send_message\<close>.
  The handler rejects the event (it emits an error, or throws on an id that is no
  \<open>ObjectId\<close>) exactly when the conversation id is missing or empty, the content
  has neither text nor file reference, or the id names no conversation. In every
  other case the message is appended to the history of the conversation the id
  names. Neither the sender's role, nor who the customer or the assigned agent of
  the conversation is, nor the membership of any room enters the condition.
\<close>

theorem send_message_error_branches:
  assumes "userInfoBySid st socket_id = Some userInfo"
  shows "(rejected (send_message st socket_id data t_msg t_last t_assigned) \<longleftrightarrow>
            (\<not> truthy_str (d_conversation_id data) \<or> \<not> has_content data
              \<or> \<not> names_conversation st (d_conversation_id data)))
       \<and> (\<not> rejected (send_message st socket_id data t_msg t_last t_assigned) \<longrightarrow>
            (\<exists>raw cid c conv st' evs conv'.
               d_conversation_id data = Some raw \<and> castObjectId raw = Some cid
               \<and> d_content data = Some c
               \<and> Conversation_docs st cid = Some conv
               \<and> send_message st socket_id data t_msg t_last t_assigned = Inr (st', evs)
               \<and> Conversation_docs st' cid = Some conv'
               \<and> chat_history conv' =
                    chat_history conv @ [accepted_message userInfo raw c t_msg]))"
  using assms
  by (auto simp: send_message_def send_message_doc_def rejected_def
        names_conversation_def emits_error_def has_content_def truthy_obj_iff truthy_str_def
        Let_def accepted_message_def split: option.splits)

theorem send_message_error_branches_witness:
  "userInfoBySid ex_state ''sidB'' = Some bob_info
   \<and> names_conversation ex_state (d_conversation_id shouted)
   \<and> \<not> rejected (send_message ex_state ''sidB'' shouted 11 12 13)"
proof -
  have 1: "userInfoBySid ex_state ''sidB'' = Some bob_info"
    by (simp add: ex_state_def)
  have 2: "truthy_str (d_conversation_id shouted)"
    by (simp add: shouted_def truthy_str_def ex_cid_upper_def)
  have 3: "has_content shouted"
    by (simp add: shouted_def has_content_def truthy_str_def)
  have 4: "names_conversation ex_state (d_conversation_id shouted)"
    by (simp add: names_conversation_def shouted_def cast_ex_cid_upper ex_state_def)
  from send_message_error_branches [OF 1, of shouted 11 12 13] 1 2 3 4
  show ?thesis by simp
qed

text \<open>
  Claim C4. A \<open>send_message\<close> whose content has an absent or empty text and no file
  reference is answered with the error "Invalid message data." on the sending
  socket alone, and the whole server state, the conversation with it, is unchanged.
\<close>

theorem send_message_empty_content_rejected:
  assumes "userInfoBySid st socket_id = Some userInfo"
      and "d_content data = Some c"
      and "c_text c = None \<or> c_text c = Some []"
      and "c_file_info c = None"
  shows "send_message st socket_id data t_msg t_last t_assigned =
           Inr (st, [(ToSocket socket_id, error_message None ''Invalid message data.'')])"
  using assms by (auto simp: send_message_def truthy_str_def truthy_obj_def)

theorem send_message_empty_content_rejected_witness:
  "userInfoBySid ex_state ''sidA'' = Some ann_info
   \<and> d_content blank = Some \<lparr>c_text = Some [], c_file_info = None\<rparr>
   \<and> send_message ex_state ''sidA'' blank 11 12 13 =
       Inr (ex_state, [(ToSocket ''sidA'', error_message None ''Invalid message data.'')])"
  using send_message_empty_content_rejected
          [of ex_state "''sidA''" ann_info blank "\<lparr>c_text = Some [], c_file_info = None\<rparr>"
              11 12 13]
  by (simp add: ex_state_def blank_def)

text \<open>
  Claim C5. A message that is accepted on a conversation in status \<open>open\<close> or
  \<open>assigned\<close> leaves it in status \<open>in_progress\<close> when the sender's role is agent or
  admin; a message of a customer leaves the status as it was, whatever it was.
\<close>

theorem send_message_status_transition:
  assumes "userInfoBySid st socket_id = Some userInfo"
      and "d_conversation_id data = Some raw" and "castObjectId raw = Some cid"
      and "has_content data"
      and "Conversation_docs st cid = Some conv"
  shows "\<exists>st' evs conv'.
           send_message st socket_id data t_msg t_last t_assigned = Inr (st', evs)
           \<and> Conversation_docs st' cid = Some conv'
           \<and> (role userInfo \<in> {agent, admin} \<and> status conv \<in> {open, assigned}
                 \<longrightarrow> status conv' = in_progress)
           \<and> (role userInfo = customer \<longrightarrow> status conv' = status conv)"
  using assms castObjectId_nonempty [of raw cid]
  by (auto simp: send_message_def send_message_doc_def
        has_content_def truthy_obj_iff truthy_str_def Let_def split: option.splits)

theorem send_message_status_transition_witness:
  "userInfoBySid ex_state ''sidB'' = Some bob_info \<and> has_content hello
   \<and> role bob_info = agent \<and> status ex_conv = open
   \<and> (\<exists>st' evs. send_message ex_state ''sidB'' hello 11 12 13 = Inr (st', evs)
         \<and> map_option status (Conversation_docs st' ex_cid) = Some in_progress)"
proof -
  have 1: "userInfoBySid ex_state ''sidB'' = Some bob_info"
    by (simp add: ex_state_def)
  have 2: "d_conversation_id hello = Some ex_cid"
    by (simp add: hello_def)
  have 3: "has_content hello"
    by (simp add: has_content_def hello_def truthy_str_def)
  have 4: "Conversation_docs ex_state ex_cid = Some ex_conv"
    by (simp add: ex_state_def)
  have 5: "role bob_info = agent" "status ex_conv = open"
    by (simp_all add: bob_info_def ex_conv_def)
  from send_message_status_transition [OF 1 2 cast_ex_cid 3 4, of 11 12 13] 1 3 5
  show ?thesis by auto
qed

text \<open>
  Claim C3, as the handler has it. The handler never reads the status before it
  appends: on a closed conversation a message with content is accepted like on any
  other. It is appended to the history, \<open>last_message_at\<close> is set, every other
  field, the status \<open>closed\<close> among them, stays, \<open>new_message\<close> goes to the room and
  no error is emitted.
\<close>

theorem send_message_on_closed_accepted:
  assumes "userInfoBySid st socket_id = Some userInfo"
      and "d_conversation_id data = Some raw" and "castObjectId raw = Some cid"
      and "d_content data = Some c" and "has_content data"
      and "Conversation_docs st cid = Some conv" and "status conv = closed"
  shows "send_message st socket_id data t_msg t_last t_assigned =
           Inr (st\<lparr>Conversation_docs := (Conversation_docs st)(cid \<mapsto>
                  conv\<lparr>chat_history :=
                          chat_history conv @ [accepted_message userInfo raw c t_msg],
                        last_message_at := t_last\<rparr>)\<rparr>,
            [(ToRoom (roomName raw), new_message (accepted_message userInfo raw c t_msg))])"
  using assms castObjectId_nonempty [of raw cid]
  by (simp add: send_message_def send_message_doc_def
        has_content_def truthy_obj_iff truthy_str_def Let_def accepted_message_def)

theorem send_message_on_closed_accepted_witness:
  "userInfoBySid ex_closed_state ''sidA'' = Some ann_info \<and> has_content hello
   \<and> status ex_closed_conv = closed
   \<and> send_message ex_closed_state ''sidA'' hello 61 62 63 =
       Inr (ex_closed_state\<lparr>Conversation_docs := (Conversation_docs ex_closed_state)(ex_cid \<mapsto>
          ex_closed_conv\<lparr>chat_history :=
              chat_history ex_closed_conv
                @ [accepted_message ann_info ex_cid
                     \<lparr>c_text = Some ''On it'', c_file_info = None\<rparr> 61],
            last_message_at := 62\<rparr>)\<rparr>,
        [(ToRoom (roomName ex_cid),
          new_message (accepted_message ann_info ex_cid
                         \<lparr>c_text = Some ''On it'', c_file_info = None\<rparr> 61))])"
proof -
  have 1: "userInfoBySid ex_closed_state ''sidA'' = Some ann_info"
    by (simp add: ex_closed_state_def ex_state_def)
  have 2: "d_conversation_id hello = Some ex_cid"
    by (simp add: hello_def)
  have 3: "d_content hello = Some \<lparr>c_text = Some ''On it'', c_file_info = None\<rparr>"
    by (simp add: hello_def)
  have 4: "has_content hello"
    by (simp add: has_content_def hello_def truthy_str_def)
  have 5: "Conversation_docs ex_closed_state ex_cid = Some ex_closed_conv"
    by (simp add: ex_closed_state_def)
  have 6: "status ex_closed_conv = closed"
    by (simp add: ex_closed_conv_def)
  from send_message_on_closed_accepted [OF 1 2 cast_ex_cid 3 4 5 6] 1 4 6
  show ?thesis by simp
qed

text \<open>
  Claim C3, as stated, fails: Ann sends "On it" to her closed conversation; no
  error is emitted and the history, empty before, holds the message afterwards.
\<close>

theorem closed_conversation_accepts_message:
  "is_closed ex_closed_state ex_cid
   \<and> map_option chat_history (Conversation_docs ex_closed_state ex_cid) = Some []
   \<and> send_message ex_closed_state ''sidA'' hello 61 62 63 =
       Inr (ex_closed_state\<lparr>Conversation_docs := [ex_cid \<mapsto>
              ex_closed_conv\<lparr>chat_history :=
                  [accepted_message ann_info ex_cid
                     \<lparr>c_text = Some ''On it'', c_file_info = None\<rparr> 61],
                last_message_at := 62\<rparr>]\<rparr>,
            [(ToRoom (roomName ex_cid),
              new_message (accepted_message ann_info ex_cid
                             \<lparr>c_text = Some ''On it'', c_file_info = None\<rparr> 61))])"
  using cast_ex_cid castObjectId_nonempty [OF cast_ex_cid]
  by (simp add: is_closed_def send_message_def send_message_doc_def accepted_message_def
        truthy_str_def truthy_obj_def Let_def ex_state_def ex_closed_state_def ex_conv_def
        ex_closed_conv_def ann_info_def hello_def)

text \<open>
  Claim C7, on the deployment. Ann writes to an id that no conversation has, and
  then sends an empty message to her own conversation: both errors she receives
  carry a text and no conversation id. \<open>join_conversation\<close> on the same unknown id
  answers with the same text and the id.
\<close>

theorem send_message_error_unscoped:
  "userInfoBySid ex_state ''sidA'' = Some ann_info
   \<and> d_conversation_id stray = Some ''64b7f0c2a1d3e4f5a6b7c8ff''
   \<and> send_message ex_state ''sidA'' stray 11 12 13 =
       Inr (ex_state, [(ToSocket ''sidA'', error_message None ''Conversation not found.'')])
   \<and> d_conversation_id blank = Some ex_cid
   \<and> send_message ex_state ''sidA'' blank 11 12 13 =
       Inr (ex_state, [(ToSocket ''sidA'', error_message None ''Invalid message data.'')])
   \<and> join_conversation ex_state ''sidA'' (Some ''64b7f0c2a1d3e4f5a6b7c8ff'') =
       Inr (ex_state, [(ToSocket ''sidA'',
                        error_message (Some ''64b7f0c2a1d3e4f5a6b7c8ff'')
                          ''Conversation not found.'')])"
  using cast_stray
  by (simp add: send_message_def join_conversation_def truthy_str_def truthy_obj_def Let_def
        stray_def blank_def ex_state_def ex_cid_def)

theorem send_message_error_unscoped_witness:
  "snd (projr (send_message ex_state ''sidA'' stray 11 12 13)) =
     [(ToSocket ''sidA'', error_message None ''Conversation not found.'')]"
  using send_message_error_unscoped by simp

section \<open>The status of a conversation\<close>

text \<open>
  Claim C1, as the handlers have it. Of a conversation that a handler has loaded in
  status \<open>closed\<close>, the document that \<open>send_message\<close>, the attachment upload and
  the assignment save still has status \<open>closed\<close>: none of them writes another
  status. The document that a status update saves has the status the request asks
  for, whatever the status that was loaded, and the update is applied whenever the
  requester is an agent or an admin or asks for \<open>open\<close>: the status update is the
  operation that leads out of \<open>closed\<close>.
\<close>

theorem closed_left_only_by_status_update:
  assumes "status conv = closed"
  shows "status (send_message_doc conv usr_role m t_last t_assigned) = closed
       \<and> status (upload_doc conv m t_last) = closed
       \<and> status (assign_doc conv agt now) = closed
       \<and> status (update_status_doc conv new_status now) = new_status
       \<and> (castObjectId conversation_id = Some cid \<and> Conversation_docs st cid = Some conv
            \<and> (u_role req_user \<in> {agent, admin} \<or> new_status = open) \<longrightarrow>
          Conversation_docs (fst (update_status st req_user conversation_id new_status now)) cid
            = Some (update_status_doc conv new_status now))"
  using assms
  by (auto simp: send_message_doc_def upload_doc_def assign_doc_def update_status_doc_def
        update_status_def castObjectId_Some Let_def)

theorem closed_left_only_by_status_update_witness:
  "status ex_closed_conv = closed
   \<and> status (send_message_doc ex_closed_conv agent
               (accepted_message bob_info ex_cid
                  \<lparr>c_text = Some ''On it'', c_file_info = None\<rparr> 61)
               62 63) = closed
   \<and> map_option status
        (Conversation_docs
           (fst (update_status ex_closed_state bob ex_cid_upper pending_customer 66)) ex_cid)
       = Some pending_customer"
proof -
  have 1: "status ex_closed_conv = closed" by (simp add: ex_closed_conv_def)
  have 2: "castObjectId ex_cid_upper = Some ex_cid" by (rule cast_ex_cid_upper)
  have 3: "Conversation_docs ex_closed_state ex_cid = Some ex_closed_conv"
    by (simp add: ex_closed_state_def)
  have 4: "u_role bob \<in> {agent, admin} \<or> pending_customer = open" by (simp add: bob_def)
  from closed_left_only_by_status_update
         [OF 1, where usr_role = agent
             and m = "accepted_message bob_info ex_cid
                        \<lparr>c_text = Some ''On it'', c_file_info = None\<rparr> 61"
             and t_last = 62 and t_assigned = 63 and new_status = pending_customer
             and now = 66 and conversation_id = ex_cid_upper and cid = ex_cid
             and st = ex_closed_state and req_user = bob and agt = bob]
       1 2 3 4
  show ?thesis by auto
qed

text \<open>
  Claim C1, as stated, fails: the admin Eve asks for status \<open>open\<close> on the closed
  conversation, and the conversation is open afterwards.
\<close>

theorem closed_conversation_reopened:
  "is_closed ex_closed_state ex_cid
   \<and> map_option status
        (Conversation_docs (fst (update_status ex_closed_state eve ex_cid open 60)) ex_cid)
       = Some open"
  using cast_ex_cid
  by (simp add: is_closed_def update_status_def update_status_doc_def castObjectId_Some
        Let_def ex_closed_state_def ex_closed_conv_def eve_def)

text \<open>
  Claim C8. An assignment that the handler applies (an admin asks, the conversation
  exists, the user named is an agent or an admin) writes the agent reference and the
  assignment time; the status becomes \<open>assigned\<close> if it was \<open>open\<close> and is left as it
  was otherwise; no other field changes.
\<close>

theorem assign_updates_agent_and_status:
  assumes "u_role req_user = admin"
      and "castObjectId conversation_id = Some cid"
      and "Conversation_docs st cid = Some conv"
      and "castObjectId body_agent_id = Some aid"
      and "User_docs st aid = Some agt"
      and "u_role agt \<in> {agent, admin}"
  shows "Conversation_docs (fst (assign st req_user conversation_id body_agent_id now)) cid =
           Some (conv\<lparr>agent_id := Some (u_id agt), assigned_at := Some now,
                      status := (if status conv = open then assigned else status conv)\<rparr>)"
  using assms
  by (auto simp: assign_def assign_doc_def requireRole_def castObjectId_Some Let_def)

theorem assign_updates_agent_and_status_witness:
  "u_role eve = admin \<and> u_role bob \<in> {agent, admin}
   \<and> Conversation_docs (fst (assign ex_state eve ex_cid (u_id bob) 20)) ex_cid =
       Some (ex_conv\<lparr>agent_id := Some (u_id bob), assigned_at := Some 20,
                     status := assigned\<rparr>)"
proof -
  have 1: "u_role eve = admin" by (simp add: eve_def)
  have 2: "Conversation_docs ex_state ex_cid = Some ex_conv" by (simp add: ex_state_def)
  have 3: "User_docs ex_state (u_id bob) = Some bob"
    by (simp add: ex_state_def ann_def bob_def eve_def)
  have 4: "u_role bob \<in> {agent, admin}" by (simp add: bob_def)
  have 5: "status ex_conv = open" by (simp add: ex_conv_def)
  from assign_updates_agent_and_status [OF 1 cast_ex_cid 2 cast_bob 3 4, of 20] 1 4 5
  show ?thesis by simp
qed

text \<open>
  Claim C9, as the handler has it. A status update that the handler applies writes
  the requested status. For \<open>resolved\<close> it records the resolved time. For \<open>closed\<close>
  it records the closed time and keeps a resolved time that is present or else sets
  it to the same instant. Afterwards the closed time is not earlier than the
  resolved time exactly when no resolved time recorded before is later than the
  clock reading of the update: always after a backfill, and otherwise only when the
  clock has not gone back since.
\<close>

theorem update_status_timestamps:
  assumes "castObjectId conversation_id = Some cid"
      and "Conversation_docs st cid = Some conv"
      and "u_role req_user \<in> {agent, admin}"
  shows "\<exists>conv'. Conversation_docs
                   (fst (update_status st req_user conversation_id new_status now)) cid
                   = Some conv'
           \<and> status conv' = new_status
           \<and> (new_status = resolved \<longrightarrow> resolved_at conv' = Some now)
           \<and> (new_status = closed \<longrightarrow>
                closed_at conv' = Some now
                \<and> resolved_at conv' =
                    (case resolved_at conv of None \<Rightarrow> Some now | Some t \<Rightarrow> Some t)
                \<and> ((\<exists>r c. resolved_at conv' = Some r \<and> closed_at conv' = Some c \<and> r \<le> c)
                     \<longleftrightarrow> (\<forall>t. resolved_at conv = Some t \<longrightarrow> t \<le> now)))"
  using assms
  by (auto simp: update_status_def update_status_doc_def castObjectId_Some Let_def
        split: option.splits)

theorem update_status_timestamps_witness:
  "u_role eve \<in> {agent, admin} \<and> resolved_at ex_resolved_conv = Some 40
   \<and> map_option (\<lambda>c. (status c, resolved_at c, closed_at c))
        (Conversation_docs (fst (update_status ex_resolved_state eve ex_cid closed 60)) ex_cid)
      = Some (closed, Some 40, Some 60)"
proof -
  have 1: "Conversation_docs ex_resolved_state ex_cid = Some ex_resolved_conv"
    by (simp add: ex_resolved_state_def)
  have 2: "u_role eve \<in> {agent, admin}" by (simp add: eve_def)
  have 3: "resolved_at ex_resolved_conv = Some 40" by (simp add: ex_resolved_conv_def)
  from update_status_timestamps [OF cast_ex_cid 1 2, of closed 60] 2 3
  show ?thesis by auto
qed

text \<open>
  Claim C9, as stated, fails: the conversation was resolved at 40 and the admin Eve
  closes it when the clock reads 30; the closed time 30 is earlier than the
  resolved time 40.
\<close>

theorem closing_before_recorded_resolution:
  "map_option (\<lambda>c. (status c, resolved_at c, closed_at c))
     (Conversation_docs ex_resolved_state ex_cid) = Some (resolved, Some 40, None)
   \<and> map_option (\<lambda>c. (status c, resolved_at c, closed_at c))
        (Conversation_docs (fst (update_status ex_resolved_state eve ex_cid closed 30)) ex_cid)
      = Some (closed, Some 40, Some 30)"
  using cast_ex_cid
  by (simp add: update_status_def update_status_doc_def castObjectId_Some Let_def
        ex_resolved_state_def ex_resolved_conv_def ex_conv_def eve_def)

section \<open>Rooms\<close>

text \<open>
  What \<open>leave_conversation\<close> does with a room that it empties: no entry stays.
\<close>

lemma leave_drops_empty_room:
  assumes "userInfoBySid st socket_id = Some userInfo" and "cid \<noteq> []"
  shows "map_of (activeSidsInRooms (fst (leave_conversation st socket_id (Some cid)))) cid
           \<noteq> Some []"
  using assms
  by (auto simp: leave_conversation_def truthy_str_def Let_def map_of_obj_delete map_of_obj_set
        split: option.splits)

text \<open>
  Claim C6, on the deployment: Ann is the only member of the room of her
  conversation. When she leaves it the entry of the room is gone; when her socket
  disconnects instead the entry stays, with an empty set.
\<close>

theorem disconnect_keeps_empty_room:
  "map_of (activeSidsInRooms ex_state) ex_cid = Some [''sidA'']
   \<and> activeSidsInRooms (fst (disconnect ex_state ''sidA'')) = [(ex_cid, [])]
   \<and> activeSidsInRooms (fst (leave_conversation ex_state ''sidA'' (Some ex_cid))) = []"
  by (simp add: disconnect_def leave_conversation_def set_delete_def obj_delete_def
        truthy_str_def Let_def ex_defs)

text \<open>
  Claim C10, as the handlers have it. A typing event of a registered socket that
  names a conversation is relayed to every socket of that conversation's room but
  the sender, whether the sender has joined the room or not; the state is unchanged
  and no error is emitted.
\<close>

theorem typing_broadcast_without_membership:
  assumes "userInfoBySid st socket_id = Some userInfo" and "cid \<noteq> []"
  shows "user_typing_start st socket_id (Some cid) =
           (st, [(ToRoomExcept (roomName cid) socket_id,
                  typing_start_broadcast (user_id userInfo) (name userInfo) cid)])
       \<and> user_typing_stop st socket_id (Some cid) =
           (st, [(ToRoomExcept (roomName cid) socket_id,
                  typing_stop_broadcast (user_id userInfo) (name userInfo) cid)])
       \<and> recipients st (ToRoomExcept (roomName cid) socket_id)
           = rooms st (roomName cid) - {socket_id}"
  using assms by (simp add: user_typing_start_def user_typing_stop_def truthy_str_def)

theorem typing_broadcast_without_membership_witness:
  "userInfoBySid ex_state ''sidA'' = Some ann_info \<and> ex_cid \<noteq> []
   \<and> user_typing_stop ex_state ''sidA'' (Some ex_cid) =
       (ex_state, [(ToRoomExcept (roomName ex_cid) ''sidA'',
                    typing_stop_broadcast (user_id ann_info) (name ann_info) ex_cid)])"
proof -
  have 1: "userInfoBySid ex_state ''sidA'' = Some ann_info" by (simp add: ex_state_def)
  have 2: "ex_cid \<noteq> []" by (simp add: ex_cid_def)
  from typing_broadcast_without_membership [OF 1 2] 1 2 show ?thesis by simp
qed

text \<open>
  Claim C10, as stated, fails: Bob has joined no room, and his typing event on
  Ann's conversation is delivered to Ann's socket.
\<close>

theorem typing_from_outside_reaches_room:
  "''sidB'' \<notin> rooms ex_state (roomName ex_cid)
   \<and> map_of (activeSidsInRooms ex_state) ex_cid = Some [''sidA'']
   \<and> user_typing_start ex_state ''sidB'' (Some ex_cid) =
       (ex_state, [(ToRoomExcept (roomName ex_cid) ''sidB'',
                    typing_start_broadcast (u_id bob) ''Bob'' ex_cid)])
   \<and> recipients ex_state (ToRoomExcept (roomName ex_cid) ''sidB'') = {''sidA''}"
  by (simp add: user_typing_start_def truthy_str_def ex_defs)

end
